theory Spec2Isabelle
  imports Main "HOL-Library.Word"
begin

section \<open>JavaScript strings\<close>

text \<open>
  Names, paths and error messages are values of type \<open>string\<close>: a character stands for
  one code unit below 256. The search, slicing and case operations of the source are
  ECMAScript built-ins; they are written out here with their clamping rules.
\<close>

text \<open>\<open>s.indexOf(needle)\<close>: the first position at which \<open>needle\<close> occurs, or -1.\<close>

fun indexOf_from :: "string \<Rightarrow> string \<Rightarrow> nat \<Rightarrow> int" where
  "indexOf_from [] needle i = (if needle = [] then int i else - 1)"
| "indexOf_from (c # cs) needle i =
     (if take (length needle) (c # cs) = needle then int i
      else indexOf_from cs needle (Suc i))"

definition indexOf :: "string \<Rightarrow> string \<Rightarrow> int" where
  "indexOf s needle = indexOf_from s needle 0"

text \<open>
  \<open>s.substring(start, end)\<close>: both indices are clamped to \<open>[0, s.length]\<close> and swapped
  when \<open>start > end\<close>. With one argument the end is \<open>s.length\<close>.
\<close>

definition substring :: "string \<Rightarrow> int \<Rightarrow> int \<Rightarrow> string" where
  "substring s start finish =
     (let n = int (length s);
          a = max 0 (min start n);
          b = max 0 (min finish n);
          lo = min a b;
          hi = max a b
      in take (nat (hi - lo)) (drop (nat lo) s))"

definition substring_from :: "string \<Rightarrow> int \<Rightarrow> string" where
  "substring_from s start = substring s start (int (length s))"

text \<open>
  \<open>s.toLowerCase()\<close> on code units below 256: the capital letters are A to Z and the
  Latin-1 capitals 192 to 222 without the multiplication sign 215; each is 32 below its
  small letter. Every other code unit is its own lower case.
\<close>

definition toLowerCase_char :: "char \<Rightarrow> char" where
  "toLowerCase_char c =
     (let n = (of_char c :: nat)
      in if (65 \<le> n \<and> n \<le> 90) \<or> (192 \<le> n \<and> n \<le> 222 \<and> n \<noteq> 215)
         then char_of (n + 32) else c)"

definition toLowerCase :: "string \<Rightarrow> string" where
  "toLowerCase s = map toLowerCase_char s"

section \<open>The path model\<close>

record BlobPath =
  containerName :: string
  blobName :: string

text \<open>A parameter of TypeScript type \<open>string | BlobPath\<close>.\<close>

datatype BlobPathArg = Str string | Path BlobPath

definition BlobPath_toString :: "BlobPath \<Rightarrow> string" where
  "BlobPath_toString p = containerName p @ ''/'' @ blobName p"

definition BlobPath_parse :: "BlobPathArg \<Rightarrow> BlobPath" where
  "BlobPath_parse blobPath =
     (case blobPath of
        Path p \<Rightarrow> p
      | Str s \<Rightarrow>
          (let firstSlashIndex = indexOf s ''/''
           in \<lparr> containerName = substring s 0 firstSlashIndex,
                blobName = substring_from s (firstSlashIndex + 1) \<rparr>))"

section \<open>Text and buffers\<close>

text \<open>
  The contents of a blob are bytes; the text written to a blob is a JavaScript string, a
  sequence of 16-bit code units that may hold surrogates. \<open>new Buffer(text)\<close> encodes
  the string as UTF-8 and \<open>buffer.toString()\<close> decodes UTF-8; both are Node.js
  built-ins, written out here over natural numbers and converted to words at the ends.
\<close>

type_synonym JSString = "16 word list"
type_synonym Buffer = "8 word list"

definition isHighSurrogate :: "nat \<Rightarrow> bool" where
  "isHighSurrogate u = (0xD800 \<le> u \<and> u \<le> 0xDBFF)"

definition isLowSurrogate :: "nat \<Rightarrow> bool" where
  "isLowSurrogate u = (0xDC00 \<le> u \<and> u \<le> 0xDFFF)"

text \<open>
  The encoder reads code points: a high surrogate followed by a low one is one code
  point above 0xFFFF, and a surrogate without its partner is replaced by U+FFFD.
\<close>

fun codePoints :: "nat list \<Rightarrow> nat list" where
  "codePoints [] = []"
| "codePoints [u] = [if isHighSurrogate u \<or> isLowSurrogate u then 0xFFFD else u]"
| "codePoints (u # v # rest) =
     (if isHighSurrogate u \<and> isLowSurrogate v
      then (0x10000 + (u - 0xD800) * 0x400 + (v - 0xDC00)) # codePoints rest
      else (if isHighSurrogate u \<or> isLowSurrogate u then 0xFFFD else u)
           # codePoints (v # rest))"

definition utf8_encode_codePoint :: "nat \<Rightarrow> nat list" where
  "utf8_encode_codePoint c =
     (if c < 0x80 then [c]
      else if c < 0x800 then [0xC0 + c div 0x40, 0x80 + c mod 0x40]
      else if c < 0x10000 then
        [0xE0 + c div 0x1000, 0x80 + (c div 0x40) mod 0x40, 0x80 + c mod 0x40]
      else
        [0xF0 + c div 0x40000, 0x80 + (c div 0x1000) mod 0x40,
         0x80 + (c div 0x40) mod 0x40, 0x80 + c mod 0x40])"

definition utf8_encode :: "nat list \<Rightarrow> nat list" where
  "utf8_encode cps = concat (map utf8_encode_codePoint cps)"

text \<open>
  The decoder is the state machine of the Encoding Standard: \<open>cp\<close> is the code point
  under construction, \<open>needed\<close> the number of continuation bytes still expected, and
  \<open>lo\<close>, \<open>hi\<close> the range allowed for the next continuation byte. A byte that cannot
  continue the sequence yields U+FFFD and is read again as the start of a sequence; input
  that ends inside a sequence yields U+FFFD.
\<close>

function utf8_decode :: "nat \<Rightarrow> nat \<Rightarrow> nat \<Rightarrow> nat \<Rightarrow> nat list \<Rightarrow> nat list" where
  "utf8_decode cp needed lo hi [] = (if needed = 0 then [] else [0xFFFD])"
| "utf8_decode cp needed lo hi (b # bs) =
     (if needed = 0 then
        (if b \<le> 0x7F then b # utf8_decode 0 0 0x80 0xBF bs
         else if 0xC2 \<le> b \<and> b \<le> 0xDF then utf8_decode (b mod 0x20) 1 0x80 0xBF bs
         else if 0xE0 \<le> b \<and> b \<le> 0xEF then
           utf8_decode (b mod 0x10) 2 (if b = 0xE0 then 0xA0 else 0x80)
             (if b = 0xED then 0x9F else 0xBF) bs
         else if 0xF0 \<le> b \<and> b \<le> 0xF4 then
           utf8_decode (b mod 0x8) 3 (if b = 0xF0 then 0x90 else 0x80)
             (if b = 0xF4 then 0x8F else 0xBF) bs
         else 0xFFFD # utf8_decode 0 0 0x80 0xBF bs)
      else if b < lo \<or> hi < b then 0xFFFD # utf8_decode 0 0 0x80 0xBF (b # bs)
      else if needed = 1 then (cp * 0x40 + b mod 0x40) # utf8_decode 0 0 0x80 0xBF bs
      else utf8_decode (cp * 0x40 + b mod 0x40) (needed - 1) 0x80 0xBF bs)"
  by pat_completeness auto
termination
  by (relation "measure (\<lambda>(cp, needed, lo, hi, bs). 2 * length bs + (if needed = 0 then 0 else 1))")
     auto

text \<open>The decoded code points become code units again, a surrogate pair above 0xFFFF.\<close>

definition codeUnits :: "nat \<Rightarrow> nat list" where
  "codeUnits c =
     (if c < 0x10000 then [c]
      else [0xD800 + (c - 0x10000) div 0x400, 0xDC00 + (c - 0x10000) mod 0x400])"

definition Buffer_from_string :: "JSString \<Rightarrow> Buffer" where
  "Buffer_from_string text = map of_nat (utf8_encode (codePoints (map unat text)))"

definition Buffer_toString :: "Buffer \<Rightarrow> JSString" where
  "Buffer_toString buffer =
     map of_nat (concat (map codeUnits (utf8_decode 0 0 0x80 0xBF (map unat buffer))))"




section \<open>Errors and promises\<close>

text \<open>
  A failure is a JavaScript \<open>Error\<close>: a message and, on the errors of the cloud SDK, an
  HTTP status code. The code classifies failures by searching the message.
\<close>

datatype Error = Error (message: string) (statusCode: "int option")

definition new_Error :: "string \<Rightarrow> Error" where
  "new_Error msg = Error msg None"

text \<open>
  Every operation returns a promise. A promise is run against the state of the backend
  and settles to a rejection (\<open>Inl\<close>) or to a result (\<open>Inr\<close>), together with the state it
  leaves. \<open>then_p\<close> is \<open>.then(f)\<close>: it skips \<open>f\<close> on a rejection. \<open>catch_p\<close> is
  \<open>.catch(h)\<close>: it skips \<open>h\<close> on a result.
\<close>

type_synonym ('s, 'a) Promise = "'s \<Rightarrow> (Error + 'a) \<times> 's"

definition resolve :: "'a \<Rightarrow> ('s, 'a) Promise" where
  "resolve v = (\<lambda>s. (Inr v, s))"

definition reject :: "Error \<Rightarrow> ('s, 'a) Promise" where
  "reject e = (\<lambda>s. (Inl e, s))"

definition then_p :: "('s, 'a) Promise \<Rightarrow> ('a \<Rightarrow> ('s, 'b) Promise) \<Rightarrow> ('s, 'b) Promise" where
  "then_p p f = (\<lambda>s. case p s of (Inl e, s') \<Rightarrow> (Inl e, s') | (Inr v, s') \<Rightarrow> f v s')"

definition catch_p :: "('s, 'a) Promise \<Rightarrow> (Error \<Rightarrow> ('s, 'a) Promise) \<Rightarrow> ('s, 'a) Promise" where
  "catch_p p h = (\<lambda>s. case p s of (Inl e, s') \<Rightarrow> h e s' | (Inr v, s') \<Rightarrow> (Inr v, s'))"

definition resolveIfErrorStatusCodeEquals :: "Error \<Rightarrow> int \<Rightarrow> 'a \<Rightarrow> ('s, 'a) Promise" where
  "resolveIfErrorStatusCodeEquals error code resolvedValue =
     (if statusCode error = Some code then resolve resolvedValue else reject error)"

definition resolveIfErrorMessageContains :: "Error \<Rightarrow> string \<Rightarrow> 'a \<Rightarrow> ('s, 'a) Promise" where
  "resolveIfErrorMessageContains error sub resolvedValue =
     (if indexOf (message error) sub \<noteq> - 1 then resolve resolvedValue else reject error)"

section \<open>Plain objects and what they inherit\<close>

datatype ContainerAccessPolicy = AccessPolicy_private | AccessPolicy_blob | AccessPolicy_container

text \<open>The policies are the strings \<open>"private"\<close>, \<open>"blob"\<close> and \<open>"container"\<close>.\<close>

definition policyString :: "ContainerAccessPolicy \<Rightarrow> string" where
  "policyString p =
     (case p of
        AccessPolicy_private \<Rightarrow> ''private''
      | AccessPolicy_blob \<Rightarrow> ''blob''
      | AccessPolicy_container \<Rightarrow> ''container'')"

text \<open>
  A \<open>StringMap\<close> is a plain object (\<open>{}\<close>) used as a dictionary. \<open>key in map\<close> and
  \<open>map[key]\<close> see the keys stored in the object and, behind them, the members of
  \<open>Object.prototype\<close>. The engine ships \<open>Object.prototype\<close> with eleven function members
  and the accessor \<open>__proto__\<close>, whose getter returns \<open>Object.prototype\<close> itself for a plain
  object. The code can reach these objects as a "container" or a "blob" and assign
  \<open>contents\<close>, \<open>contentType\<close> and \<open>accessPolicy\<close> to them; assigned to \<open>Object.prototype\<close>,
  these become members that every object inherits.
\<close>

definition functionMembers :: "string list" where
  "functionMembers =
     [''constructor'', ''__defineGetter__'', ''__defineSetter__'', ''hasOwnProperty'',
      ''__lookupGetter__'', ''__lookupSetter__'', ''isPrototypeOf'', ''propertyIsEnumerable'',
      ''toString'', ''valueOf'', ''toLocaleString'']"

text \<open>
  The objects that a lookup can find without their having been stored: a function member
  of \<open>Object.prototype\<close>, \<open>Object.prototype\<close> itself, and the buffer that has been
  assigned to \<open>Object.prototype.contents\<close>.
\<close>

datatype InheritedObject = FunctionMember string | ObjectPrototype | PrototypeContents

text \<open>The properties that the code has assigned to such an object.\<close>

record Properties =
  own_contents :: "Buffer option"
  own_contentType :: "string option"
  own_accessPolicy :: "ContainerAccessPolicy option"

definition no_properties :: Properties where
  "no_properties = \<lparr>own_contents = None, own_contentType = None, own_accessPolicy = None\<rparr>"

text \<open>
  The part of the global object graph that the backend can reach: the properties assigned
  to each function member, to \<open>Object.prototype\<close>, and to the buffer held in
  \<open>Object.prototype.contents\<close>. In \<open>pristine\<close> nothing has been assigned.
\<close>

record Environment =
  functionProperties :: "string \<Rightarrow> Properties"
  prototypeProperties :: Properties
  prototypeContentsProperties :: Properties

definition pristine :: Environment where
  "pristine =
     \<lparr>functionProperties = (\<lambda>_. no_properties),
      prototypeProperties = no_properties,
      prototypeContentsProperties = no_properties\<rparr>"

text \<open>
  The value of an expression \<open>map[key]\<close>: a stored value, an inherited object, a string (a
  content type or a policy that has been assigned to \<open>Object.prototype\<close>) or \<open>undefined\<close>.
\<close>

datatype 'a JSValue = Own 'a | Inherited InheritedObject | StringValue string | Undefined

text \<open>\<open>!value\<close> is false for every object and for every string but the empty one.\<close>

definition truthy :: "'a JSValue \<Rightarrow> bool" where
  "truthy v =
     (case v of Own _ \<Rightarrow> True | Inherited _ \<Rightarrow> True | StringValue s \<Rightarrow> s \<noteq> [] | Undefined \<Rightarrow> False)"

text \<open>Whether \<open>Object.prototype\<close> has a member of the given name, and its value.\<close>

definition isInherited :: "Environment \<Rightarrow> string \<Rightarrow> bool" where
  "isInherited env key =
     (key \<in> set functionMembers \<or> key = ''__proto__''
      \<or> (key = ''contents'' \<and> own_contents (prototypeProperties env) \<noteq> None)
      \<or> (key = ''contentType'' \<and> own_contentType (prototypeProperties env) \<noteq> None)
      \<or> (key = ''accessPolicy'' \<and> own_accessPolicy (prototypeProperties env) \<noteq> None))"

definition inheritedValue :: "Environment \<Rightarrow> string \<Rightarrow> 'a JSValue" where
  "inheritedValue env key =
     (if key \<in> set functionMembers then Inherited (FunctionMember key)
      else if key = ''__proto__'' then Inherited ObjectPrototype
      else if key = ''contents'' then
        (case own_contents (prototypeProperties env) of
           Some _ \<Rightarrow> Inherited PrototypeContents | None \<Rightarrow> Undefined)
      else if key = ''contentType'' then
        (case own_contentType (prototypeProperties env) of
           Some s \<Rightarrow> StringValue s | None \<Rightarrow> Undefined)
      else if key = ''accessPolicy'' then
        (case own_accessPolicy (prototypeProperties env) of
           Some p \<Rightarrow> StringValue (policyString p) | None \<Rightarrow> Undefined)
      else Undefined)"

text \<open>\<open>key in map\<close> and \<open>map[key]\<close> on a plain object that stores the map \<open>m\<close>.\<close>

definition hasProperty :: "(string \<rightharpoonup> 'a) \<Rightarrow> Environment \<Rightarrow> string \<Rightarrow> bool" where
  "hasProperty m env key = (m key \<noteq> None \<or> isInherited env key)"

definition getProperty :: "(string \<rightharpoonup> 'a) \<Rightarrow> Environment \<Rightarrow> string \<Rightarrow> 'a JSValue" where
  "getProperty m env key = (case m key of Some v \<Rightarrow> Own v | None \<Rightarrow> inheritedValue env key)"

text \<open>
  Reading a property of an inherited object: its own property, else the member of
  \<open>Object.prototype\<close> (the prototype chain of a function, a buffer or a string has no other
  object with one of the three names).
\<close>

definition properties :: "Environment \<Rightarrow> InheritedObject \<Rightarrow> Properties" where
  "properties env obj =
     (case obj of
        FunctionMember key \<Rightarrow> functionProperties env key
      | ObjectPrototype \<Rightarrow> prototypeProperties env
      | PrototypeContents \<Rightarrow> prototypeContentsProperties env)"

definition read_contents :: "Environment \<Rightarrow> InheritedObject \<Rightarrow> Buffer option" where
  "read_contents env obj =
     (case own_contents (properties env obj) of
        Some b \<Rightarrow> Some b
      | None \<Rightarrow> own_contents (prototypeProperties env))"

definition read_contentType :: "Environment \<Rightarrow> InheritedObject \<Rightarrow> string option" where
  "read_contentType env obj =
     (case own_contentType (properties env obj) of
        Some t \<Rightarrow> Some t
      | None \<Rightarrow> own_contentType (prototypeProperties env))"

definition read_accessPolicy :: "Environment \<Rightarrow> InheritedObject \<Rightarrow> ContainerAccessPolicy option" where
  "read_accessPolicy env obj =
     (case own_accessPolicy (properties env obj) of
        Some p \<Rightarrow> Some p
      | None \<Rightarrow> own_accessPolicy (prototypeProperties env))"

text \<open>
  Assigning a property of an inherited object creates or replaces its own property. A new
  buffer assigned to \<open>Object.prototype.contents\<close> is a new object without properties.
\<close>

definition update_properties ::
  "InheritedObject \<Rightarrow> (Properties \<Rightarrow> Properties) \<Rightarrow> Environment \<Rightarrow> Environment" where
  "update_properties obj f env =
     (case obj of
        FunctionMember key \<Rightarrow>
          env\<lparr>functionProperties := (functionProperties env)(key := f (functionProperties env key))\<rparr>
      | ObjectPrototype \<Rightarrow> env\<lparr>prototypeProperties := f (prototypeProperties env)\<rparr>
      | PrototypeContents \<Rightarrow>
          env\<lparr>prototypeContentsProperties := f (prototypeContentsProperties env)\<rparr>)"

definition assign_contents :: "InheritedObject \<Rightarrow> Buffer \<Rightarrow> Environment \<Rightarrow> Environment" where
  "assign_contents obj b env =
     (case obj of
        ObjectPrototype \<Rightarrow>
          env\<lparr>prototypeProperties := (prototypeProperties env)\<lparr>own_contents := Some b\<rparr>,
              prototypeContentsProperties := no_properties\<rparr>
      | _ \<Rightarrow> update_properties obj (\<lambda>p. p\<lparr>own_contents := Some b\<rparr>) env)"

definition assign_contentType :: "InheritedObject \<Rightarrow> string \<Rightarrow> Environment \<Rightarrow> Environment" where
  "assign_contentType obj t env = update_properties obj (\<lambda>p. p\<lparr>own_contentType := Some t\<rparr>) env"

definition assign_accessPolicy ::
  "InheritedObject \<Rightarrow> ContainerAccessPolicy \<Rightarrow> Environment \<Rightarrow> Environment" where
  "assign_accessPolicy obj a env = update_properties obj (\<lambda>p. p\<lparr>own_accessPolicy := Some a\<rparr>) env"

text \<open>
  The type errors the engine throws, in V8's wording: \<open>key in undefined\<close>,
  \<open>undefined[key]\<close>, \<open>undefined[key] = v\<close>, and an assignment to a property of a string
  (the compiled module runs in strict mode).
\<close>

definition quoted :: "string \<Rightarrow> string" where
  "quoted s = [CHR 0x27] @ s @ [CHR 0x27]"

definition TypeError_in :: "string \<Rightarrow> Error" where
  "TypeError_in key =
     new_Error (''Cannot use '' @ quoted ''in'' @ '' operator to search for '' @ quoted key
                @ '' in undefined'')"

definition TypeError_read :: "string \<Rightarrow> Error" where
  "TypeError_read key = new_Error (''Cannot read property '' @ quoted key @ '' of undefined'')"

definition TypeError_set :: "string \<Rightarrow> Error" where
  "TypeError_set key = new_Error (''Cannot set property '' @ quoted key @ '' of undefined'')"

definition TypeError_create :: "string \<Rightarrow> string \<Rightarrow> Error" where
  "TypeError_create key s =
     new_Error (''Cannot create property '' @ quoted key @ '' on string '' @ quoted s)"

section \<open>The in-memory backend\<close>

datatype CreateContainerOptions =
  CreateContainerOptions (options_accessPolicy: "ContainerAccessPolicy option")

datatype BlobContentOptions =
  BlobContentOptions (options_contentType: "string option")

record InMemoryBlob =
  contents :: Buffer
  contentType :: "string option"

record InMemoryContainer =
  name :: string
  blobs :: "string \<rightharpoonup> InMemoryBlob"
  accessPolicy :: ContainerAccessPolicy

text \<open>
  The backend stores its containers by name. A promise of the backend runs against the
  backend together with the environment its lookups reach.
\<close>

record InMemoryBlobStorage =
  containers :: "string \<rightharpoonup> InMemoryContainer"

record Runtime = InMemoryBlobStorage +
  environment :: Environment

text \<open>
  Containers and blobs are objects held by reference: an assignment to a field of a
  container or of a blob changes the object stored in the backend. The model writes the
  changed record back under the key it was read from; \<open>store_blob\<close> does so for a blob
  that was reached through its path.
\<close>

definition store_container :: "string \<Rightarrow> InMemoryContainer \<Rightarrow> Runtime \<Rightarrow> Runtime" where
  "store_container key container this = this\<lparr>containers := (containers this)(key \<mapsto> container)\<rparr>"

definition store_blob :: "BlobPath \<Rightarrow> InMemoryBlob \<Rightarrow> Runtime \<Rightarrow> Runtime" where
  "store_blob path blob this =
     (case containers this (containerName path) of
        None \<Rightarrow> this
      | Some container \<Rightarrow>
          store_container (containerName path)
            (container\<lparr>blobs := (blobs container)(blobName path \<mapsto> blob)\<rparr>) this)"

text \<open>\<open>(options && options.contentType) || "application/octet-stream"\<close>: an absent
  options object, an absent content type and the empty content type all give the default.\<close>

definition contentTypeOrDefault :: "BlobContentOptions option \<Rightarrow> string" where
  "contentTypeOrDefault options =
     (case options of
        None \<Rightarrow> ''application/octet-stream''
      | Some opts \<Rightarrow>
          (case options_contentType opts of
             None \<Rightarrow> ''application/octet-stream''
           | Some t \<Rightarrow> if t = [] then ''application/octet-stream'' else t))"

text \<open>\<open>(options && options.accessPolicy) || "private"\<close>; every policy is a non-empty string.\<close>

definition accessPolicyOrDefault :: "CreateContainerOptions option \<Rightarrow> ContainerAccessPolicy" where
  "accessPolicyOrDefault options =
     (case options of
        None \<Rightarrow> AccessPolicy_private
      | Some opts \<Rightarrow>
          (case options_accessPolicy opts of None \<Rightarrow> AccessPolicy_private | Some p \<Rightarrow> p))"

text \<open>
  The expressions \<open>container.blobs\<close>, \<open>container.accessPolicy\<close>, \<open>blob.contents\<close> and
  \<open>blob.contentType\<close>. No object in reach but a stored container has a member \<open>blobs\<close>, so
  on an inherited object \<open>container.blobs\<close> is \<open>undefined\<close> (\<open>None\<close>). A property of a
  string is looked up on \<open>Object.prototype\<close>. The promises below never pass \<open>undefined\<close>
  itself to these expressions.
\<close>

definition container_blobs :: "InMemoryContainer JSValue \<Rightarrow> (string \<rightharpoonup> InMemoryBlob) option" where
  "container_blobs container = (case container of Own c \<Rightarrow> Some (blobs c) | _ \<Rightarrow> None)"

definition container_accessPolicy ::
  "Environment \<Rightarrow> InMemoryContainer JSValue \<Rightarrow> ContainerAccessPolicy option" where
  "container_accessPolicy env container =
     (case container of
        Own c \<Rightarrow> Some (accessPolicy c)
      | Inherited obj \<Rightarrow> read_accessPolicy env obj
      | StringValue _ \<Rightarrow> own_accessPolicy (prototypeProperties env)
      | Undefined \<Rightarrow> None)"

definition blob_contents :: "Environment \<Rightarrow> InMemoryBlob JSValue \<Rightarrow> Buffer option" where
  "blob_contents env blob =
     (case blob of
        Own b \<Rightarrow> Some (contents b)
      | Inherited obj \<Rightarrow> read_contents env obj
      | StringValue _ \<Rightarrow> own_contents (prototypeProperties env)
      | Undefined \<Rightarrow> None)"

definition blob_contentType :: "Environment \<Rightarrow> InMemoryBlob JSValue \<Rightarrow> string option" where
  "blob_contentType env blob =
     (case blob of
        Own b \<Rightarrow> contentType b
      | Inherited obj \<Rightarrow> read_contentType env obj
      | StringValue _ \<Rightarrow> own_contentType (prototypeProperties env)
      | Undefined \<Rightarrow> None)"

text \<open>The argument of \<open>getInMemoryContainer\<close> is a container name or a path whose
  container is meant. It resolves with whatever \<open>this.containers[containerName]\<close> finds,
  when that is not falsy.\<close>

definition getInMemoryContainer :: "BlobPathArg \<Rightarrow> (Runtime, InMemoryContainer JSValue) Promise" where
  "getInMemoryContainer arg = (\<lambda>this.
     let cname = (case arg of Str s \<Rightarrow> s | Path p \<Rightarrow> containerName p)
     in if cname = [] \<or> cname \<noteq> toLowerCase cname then
          reject (new_Error ''InvalidResourceName: The specifed resource name contains invalid characters.'') this
        else
          (let container = getProperty (containers this) (environment this) cname
           in if \<not> truthy container then
                reject (new_Error ''ContainerNotFound: The specified container does not exist.'') this
              else resolve container this))"

definition getInMemoryBlob :: "BlobPathArg \<Rightarrow> (Runtime, InMemoryBlob JSValue) Promise" where
  "getInMemoryBlob arg =
     (let blobPath = BlobPath_parse arg; bname = blobName blobPath
      in then_p (getInMemoryContainer (Str (containerName blobPath)))
           (\<lambda>container this.
              case container_blobs container of
                None \<Rightarrow> (Inl (TypeError_in bname), this)
              | Some bs \<Rightarrow>
                  if hasProperty bs (environment this) bname
                  then (Inr (getProperty bs (environment this) bname), this)
                  else (Inl (new_Error ''BlobNotFound: The specified blob does not exist.''), this)))"

definition createBlob :: "BlobPathArg \<Rightarrow> BlobContentOptions option \<Rightarrow> (Runtime, bool) Promise" where
  "createBlob arg options =
     (let blobPath = BlobPath_parse arg; bname = blobName blobPath
      in then_p (getInMemoryContainer (Path blobPath))
           (\<lambda>container this.
              case container of
                Own c \<Rightarrow>
                  if \<not> hasProperty (blobs c) (environment this) bname then
                    (Inr True,
                     store_container (containerName blobPath)
                       (c\<lparr>blobs := (blobs c)
                          (bname \<mapsto> \<lparr>contents = [], contentType = Some (contentTypeOrDefault options)\<rparr>)\<rparr>)
                       this)
                  else (Inr False, this)
              | _ \<Rightarrow> (Inl (TypeError_in bname), this)))"

definition blobExists :: "BlobPathArg \<Rightarrow> (Runtime, bool) Promise" where
  "blobExists arg =
     (let blobPath = BlobPath_parse arg; bname = blobName blobPath
      in catch_p
           (then_p (getInMemoryContainer (Path blobPath))
              (\<lambda>container this.
                 case container_blobs container of
                   None \<Rightarrow> (Inl (TypeError_in bname), this)
                 | Some bs \<Rightarrow> (Inr (hasProperty bs (environment this) bname), this)))
           (\<lambda>error. resolveIfErrorMessageContains error ''ContainerNotFound'' False))"

text \<open>\<open>blob.contents.toString()\<close> throws when the blob has no contents in reach.\<close>

definition getBlobContentsAsString :: "BlobPathArg \<Rightarrow> (Runtime, JSString) Promise" where
  "getBlobContentsAsString arg =
     then_p (getInMemoryBlob arg)
       (\<lambda>blob this.
          case blob_contents (environment this) blob of
            Some b \<Rightarrow> (Inr (Buffer_toString b), this)
          | None \<Rightarrow> (Inl (TypeError_read ''toString''), this))"

text \<open>
  The two assignments of the \<open>else\<close> branch, on the object that the lookup found: a
  stored blob, an inherited object, or a string, on which the first assignment throws.
\<close>

definition assign_blob ::
  "BlobPath \<Rightarrow> InMemoryContainer \<Rightarrow> InMemoryBlob JSValue \<Rightarrow> Buffer \<Rightarrow> string \<Rightarrow> (Runtime, unit) Promise" where
  "assign_blob blobPath c blob newContents newContentType = (\<lambda>this.
     case blob of
       Own b \<Rightarrow>
         (Inr (),
          store_container (containerName blobPath)
            (c\<lparr>blobs := (blobs c)
               (blobName blobPath \<mapsto> b\<lparr>contents := newContents, contentType := Some newContentType\<rparr>)\<rparr>)
            this)
     | Inherited obj \<Rightarrow>
         (Inr (),
          this\<lparr>environment :=
            assign_contentType obj newContentType (assign_contents obj newContents (environment this))\<rparr>)
     | StringValue s \<Rightarrow> (Inl (TypeError_create ''contents'' s), this)
     | Undefined \<Rightarrow> (Inl (TypeError_set ''contents''), this))"

definition setBlobContentsFromString ::
  "BlobPathArg \<Rightarrow> JSString \<Rightarrow> BlobContentOptions option \<Rightarrow> (Runtime, unit) Promise" where
  "setBlobContentsFromString arg blobContents options =
     (let blobPath = BlobPath_parse arg; bname = blobName blobPath
      in then_p (getInMemoryContainer (Path blobPath))
           (\<lambda>container this.
              case container of
                Own c \<Rightarrow>
                  (let blob = getProperty (blobs c) (environment this) bname
                   in if \<not> truthy blob then
                        (Inr (),
                         store_container (containerName blobPath)
                           (c\<lparr>blobs := (blobs c)
                              (bname \<mapsto> \<lparr>contents = Buffer_from_string blobContents,
                                         contentType = Some (contentTypeOrDefault options)\<rparr>)\<rparr>)
                           this)
                      else
                        assign_blob blobPath c blob (Buffer_from_string blobContents)
                          (contentTypeOrDefault options) this)
              | _ \<Rightarrow> (Inl (TypeError_read bname), this)))"

text \<open>
  \<open>fs.readFileSync(filePath)\<close> is a parameter: it returns the bytes of the file or throws.
  In either branch it runs inside the \<open>then\<close> callback before the assignment, so a throw
  rejects the promise and leaves the backend as it was.
\<close>

definition setBlobContentsFromFile ::
  "(string \<Rightarrow> Error + Buffer) \<Rightarrow> BlobPathArg \<Rightarrow> string \<Rightarrow> BlobContentOptions option
     \<Rightarrow> (Runtime, unit) Promise" where
  "setBlobContentsFromFile readFileSync arg filePath options =
     (let blobPath = BlobPath_parse arg; bname = blobName blobPath
      in then_p (getInMemoryContainer (Path blobPath))
           (\<lambda>container this.
              case container of
                Own c \<Rightarrow>
                  (let blob = getProperty (blobs c) (environment this) bname
                   in if \<not> truthy blob then
                        (case readFileSync filePath of
                           Inl error \<Rightarrow> (Inl error, this)
                         | Inr fileContents \<Rightarrow>
                             (Inr (),
                              store_container (containerName blobPath)
                                (c\<lparr>blobs := (blobs c)
                                   (bname \<mapsto> \<lparr>contents = fileContents,
                                              contentType = Some (contentTypeOrDefault options)\<rparr>)\<rparr>)
                                this))
                      else
                        (case readFileSync filePath of
                           Inl error \<Rightarrow> (Inl error, this)
                         | Inr fileContents \<Rightarrow>
                             assign_blob blobPath c blob fileContents
                               (contentTypeOrDefault options) this))
              | _ \<Rightarrow> (Inl (TypeError_read bname), this)))"

definition getBlobContentType :: "BlobPathArg \<Rightarrow> (Runtime, string option) Promise" where
  "getBlobContentType arg =
     then_p (getInMemoryBlob arg)
       (\<lambda>blob this. (Inr (blob_contentType (environment this) blob), this))"

definition setBlobContentType :: "BlobPathArg \<Rightarrow> string \<Rightarrow> (Runtime, unit) Promise" where
  "setBlobContentType arg newContentType =
     then_p (getInMemoryBlob arg)
       (\<lambda>blob this.
          case blob of
            Own b \<Rightarrow>
              (Inr (), store_blob (BlobPath_parse arg) (b\<lparr>contentType := Some newContentType\<rparr>) this)
          | Inherited obj \<Rightarrow>
              (Inr (), this\<lparr>environment := assign_contentType obj newContentType (environment this)\<rparr>)
          | StringValue s \<Rightarrow> (Inl (TypeError_create ''contentType'' s), this)
          | Undefined \<Rightarrow> (Inl (TypeError_set ''contentType''), this))"

text \<open>\<open>delete container.blobs[blobName]\<close> removes a stored key and nothing else.\<close>

definition deleteBlob :: "BlobPathArg \<Rightarrow> (Runtime, bool) Promise" where
  "deleteBlob arg =
     (let blobPath = BlobPath_parse arg; bname = blobName blobPath
      in then_p (getInMemoryContainer (Path blobPath))
           (\<lambda>container this.
              case container of
                Own c \<Rightarrow>
                  if hasProperty (blobs c) (environment this) bname then
                    (Inr True,
                     store_container (containerName blobPath)
                       (c\<lparr>blobs := (blobs c)(bname := None)\<rparr>) this)
                  else (Inr False, this)
              | _ \<Rightarrow> (Inl (TypeError_in bname), this)))"

text \<open>
  In \<open>createContainer\<close> the \<open>catch\<close> turns a missing container into \<open>undefined\<close>; the \<open>then\<close>
  after it ignores the value and tests \<open>containerName in this.containers\<close>.
\<close>

definition createContainer ::
  "string \<Rightarrow> CreateContainerOptions option \<Rightarrow> (Runtime, bool) Promise" where
  "createContainer cname options =
     then_p
       (catch_p
          (getInMemoryContainer (Str cname))
          (\<lambda>error. resolveIfErrorMessageContains error ''ContainerNotFound'' Undefined))
       (\<lambda>_ this.
          let result = (\<not> hasProperty (containers this) (environment this) cname)
          in if result then
               (Inr result,
                this\<lparr>containers := (containers this)
                  (cname \<mapsto> \<lparr>name = cname, blobs = Map.empty,
                              accessPolicy = accessPolicyOrDefault options\<rparr>)\<rparr>)
             else (Inr result, this))"

definition containerExists :: "string \<Rightarrow> (Runtime, bool) Promise" where
  "containerExists cname =
     catch_p
       (then_p (getInMemoryContainer (Str cname)) (\<lambda>_. resolve True))
       (\<lambda>error. resolveIfErrorMessageContains error ''ContainerNotFound'' False)"

definition getContainerAccessPolicy :: "string \<Rightarrow> (Runtime, ContainerAccessPolicy option) Promise" where
  "getContainerAccessPolicy cname =
     then_p (getInMemoryContainer (Str cname))
       (\<lambda>container this. (Inr (container_accessPolicy (environment this) container), this))"

definition setContainerAccessPolicy :: "string \<Rightarrow> ContainerAccessPolicy \<Rightarrow> (Runtime, unit) Promise" where
  "setContainerAccessPolicy cname permissions =
     then_p (getInMemoryContainer (Str cname))
       (\<lambda>container this.
          case container of
            Own c \<Rightarrow> (Inr (), store_container cname (c\<lparr>accessPolicy := permissions\<rparr>) this)
          | Inherited obj \<Rightarrow>
              (Inr (), this\<lparr>environment := assign_accessPolicy obj permissions (environment this)\<rparr>)
          | StringValue s \<Rightarrow> (Inl (TypeError_create ''accessPolicy'' s), this)
          | Undefined \<Rightarrow> (Inl (TypeError_set ''accessPolicy''), this))"

definition deleteContainer :: "string \<Rightarrow> (Runtime, bool) Promise" where
  "deleteContainer cname =
     catch_p
       (then_p (getInMemoryContainer (Str cname))
          (\<lambda>_ this. (Inr True, this\<lparr>containers := (containers this)(cname := None)\<rparr>)))
       (\<lambda>error. resolveIfErrorMessageContains error ''ContainerNotFound'' False)"

text \<open>The three errors the in-memory backend raises.\<close>

abbreviation InvalidResourceName :: Error where
  "InvalidResourceName \<equiv>
     new_Error ''InvalidResourceName: The specifed resource name contains invalid characters.''"

abbreviation ContainerNotFound :: Error where
  "ContainerNotFound \<equiv> new_Error ''ContainerNotFound: The specified container does not exist.''"

abbreviation BlobNotFound :: Error where
  "BlobNotFound \<equiv> new_Error ''BlobNotFound: The specified blob does not exist.''"

section \<open>The cloud backend\<close>



record GetURLOptions =
  sasToken :: "bool option"

record AzureBlobStorage =
  url :: string

text \<open>
  \<open>URLBuilder.removeQuery(result).toString()\<close> is a parameter of \<open>getURL\<close>: the URL
  builder is not among the sources. \<open>options && !options.sasToken\<close> holds for an options
  object whose \<open>sasToken\<close> is absent or false.
\<close>

definition AzureBlobStorage_getURL ::
  "(string \<Rightarrow> string) \<Rightarrow> AzureBlobStorage \<Rightarrow> GetURLOptions option \<Rightarrow> string" where
  "AzureBlobStorage_getURL removeQuery this options =
     (let result = url this;
          result = (case options of
                      None \<Rightarrow> result
                    | Some opts \<Rightarrow> if sasToken opts = Some True then result else removeQuery result)
      in url this)"




section \<open>Example states\<close>

text \<open>
  Concrete states on which the theorems below are instantiated: the backend just
  constructed, a backend whose only container is \<open>logs\<close> with the given blobs (both in
  the pristine environment), and an SDK that gives one fixed answer to every call on a
  blob and another to every call on a container.
\<close>

definition fresh :: Runtime where
  "fresh = \<lparr>containers = Map.empty, environment = pristine\<rparr>"


definition example_container :: "(string \<rightharpoonup> InMemoryBlob) \<Rightarrow> InMemoryContainer" where
  "example_container bs = \<lparr>name = ''logs'', blobs = bs, accessPolicy = AccessPolicy_private\<rparr>"

definition example_storage :: "(string \<rightharpoonup> InMemoryBlob) \<Rightarrow> Runtime" where
  "example_storage bs = \<lparr>containers = [''logs'' \<mapsto> example_container bs], environment = pristine\<rparr>"


section \<open>Properties of the path model\<close>

lemma indexOf_from_absent:
  "CHR ''/'' \<notin> set s \<Longrightarrow> indexOf_from s ''/'' i = - 1"
  by (induction s arbitrary: i) auto

lemma indexOf_from_first:
  "CHR ''/'' \<notin> set c \<Longrightarrow> indexOf_from (c @ CHR ''/'' # r) ''/'' i = int (i + length c)"
  by (induction c arbitrary: i) auto

lemma indexOf_absent: "CHR ''/'' \<notin> set s \<Longrightarrow> indexOf s ''/'' = - 1"
  by (simp add: indexOf_def indexOf_from_absent)

lemma indexOf_first:
  "CHR ''/'' \<notin> set c \<Longrightarrow> indexOf (c @ ''/'' @ r) ''/'' = int (length c)"
  using indexOf_from_first [of c r 0] by (simp add: indexOf_def)

lemma BlobPath_parse_split:
  assumes "CHR ''/'' \<notin> set c"
  shows "BlobPath_parse (Str (c @ ''/'' @ r)) = \<lparr>containerName = c, blobName = r\<rparr>"
proof -
  have i: "indexOf (c @ ''/'' @ r) ''/'' = int (length c)"
    using assms by (rule indexOf_first)
  have a: "substring (c @ ''/'' @ r) 0 (int (length c)) = c"
    by (simp add: substring_def Let_def min_def max_def)
  have b: "substring_from (c @ ''/'' @ r) (int (length c) + 1) = r"
    by (simp add: substring_from_def substring_def Let_def min_def max_def nat_add_distrib)
  show ?thesis
    by (simp add: BlobPath_parse_def Let_def i a b del: append.simps)
qed

lemma BlobPath_parse_no_separator:
  assumes "CHR ''/'' \<notin> set s"
  shows "BlobPath_parse (Str s) = \<lparr>containerName = [], blobName = s\<rparr>"
proof -
  have i: "indexOf s ''/'' = - 1"
    using assms by (rule indexOf_absent)
  show ?thesis
    by (simp add: BlobPath_parse_def Let_def i substring_from_def substring_def min_def max_def)
qed

text \<open>
  C6. A string \<open>containerName + "/" + rest\<close>, where \<open>containerName\<close> holds no separator
  (the split is at the first one) and \<open>rest\<close> is any string, parses to the container
  \<open>containerName\<close> and the blob name \<open>rest\<close>, and the string form of the parsed path is the
  original string.
\<close>

theorem BlobPath_parse_toString_roundtrip:
  assumes "CHR ''/'' \<notin> set c"
  shows "containerName (BlobPath_parse (Str (c @ ''/'' @ r))) = c
       \<and> blobName (BlobPath_parse (Str (c @ ''/'' @ r))) = r
       \<and> BlobPath_toString (BlobPath_parse (Str (c @ ''/'' @ r))) = c @ ''/'' @ r"
  using BlobPath_parse_split [OF assms, of r] by (simp add: BlobPath_toString_def)

text \<open>The instance of the specification: \<open>BlobPath.parse("a/b/c")\<close>.\<close>

theorem BlobPath_parse_toString_roundtrip_witness:
  "CHR ''/'' \<notin> set ''a''
   \<and> containerName (BlobPath_parse (Str ''a/b/c'')) = ''a''
   \<and> blobName (BlobPath_parse (Str ''a/b/c'')) = ''b/c''
   \<and> BlobPath_toString (BlobPath_parse (Str ''a/b/c'')) = ''a/b/c''"
proof -
  have h: "CHR ''/'' \<notin> set ''a''" by simp
  show ?thesis
    using h BlobPath_parse_toString_roundtrip [OF h, of "''b/c''"] by simp
qed

text \<open>
  C3 (as the code behaves). \<open>BlobPath.parse\<close> has no failure path. On a string without a
  separator \<open>indexOf\<close> returns -1, \<open>substring(0, -1)\<close> is the empty string and
  \<open>substring(0)\<close> is the whole string: the result is the path with the empty container
  name and the whole string as blob name.
\<close>

theorem BlobPath_parse_without_separator:
  "CHR ''/'' \<notin> set s \<Longrightarrow>
     BlobPath_parse (Str s) = \<lparr>containerName = [], blobName = s\<rparr>"
  by (rule BlobPath_parse_no_separator)

theorem BlobPath_parse_without_separator_witness:
  "CHR ''/'' \<notin> set ''readme.txt''
   \<and> BlobPath_parse (Str ''readme.txt'') = \<lparr>containerName = [], blobName = ''readme.txt''\<rparr>"
proof -
  have h: "CHR ''/'' \<notin> set ''readme.txt''" by simp
  show ?thesis
    using h BlobPath_parse_without_separator [OF h] by simp
qed

text \<open>
  C3 as stated fails: parsing \<open>"abc"\<close> returns a path value, it does not raise.
\<close>

theorem BlobPath_parse_no_failure_counterexample:
  "BlobPath_parse (Str ''abc'') = \<lparr>containerName = '''', blobName = ''abc''\<rparr>"
  by (simp add: BlobPath_parse_def indexOf_def substring_from_def substring_def Let_def)

section \<open>Properties of the buffer encoding\<close>

subsection \<open>Arithmetic of the byte patterns\<close>













subsection \<open>Decoding what the encoder wrote\<close>

text \<open>
  From here on the decoder is unfolded one byte at a time by the step lemmas above.
\<close>

declare utf8_decode.simps [simp del]









subsection \<open>Code units and code points\<close>








section \<open>Properties of the in-memory backend\<close>

subsection \<open>Lookups in plain objects\<close>

lemma inheritedValue_none: "\<not> isInherited env key \<Longrightarrow> inheritedValue env key = Undefined"
  by (auto simp: isInherited_def inheritedValue_def split: option.splits)

lemma getProperty_own: "m key = Some v \<Longrightarrow> getProperty m env key = Own v"
  by (simp add: getProperty_def)

lemma hasProperty_own: "m key = Some v \<Longrightarrow> hasProperty m env key"
  by (simp add: hasProperty_def)

lemma getProperty_absent:
  "\<not> hasProperty m env key \<Longrightarrow> getProperty m env key = Undefined"
  by (auto simp: hasProperty_def getProperty_def inheritedValue_none split: option.splits)


lemma lower_contentType: "toLowerCase ''contentType'' \<noteq> ''contentType''"
  by (simp add: toLowerCase_def toLowerCase_char_def char_of_def)

lemma lower_accessPolicy: "toLowerCase ''accessPolicy'' \<noteq> ''accessPolicy''"
  by (simp add: toLowerCase_def toLowerCase_char_def char_of_def)

lemma truthy_lower_name:
  assumes "key = toLowerCase key"
  shows "truthy (getProperty m env key) = hasProperty m env key"
proof -
  have "key \<noteq> ''contentType''" "key \<noteq> ''accessPolicy''"
    using assms lower_contentType lower_accessPolicy by auto
  then show ?thesis
    by (auto simp: truthy_def getProperty_def hasProperty_def isInherited_def inheritedValue_def
        split: option.splits)
qed


subsection \<open>Looking a container up\<close>

lemma getInMemoryContainer_invalid:
  "cname = [] \<or> cname \<noteq> toLowerCase cname \<Longrightarrow>
     getInMemoryContainer (Str cname) this = (Inl InvalidResourceName, this)"
  by (simp add: getInMemoryContainer_def reject_def)

lemma getInMemoryContainer_valid:
  "cname \<noteq> [] \<Longrightarrow> cname = toLowerCase cname \<Longrightarrow>
     getInMemoryContainer (Str cname) this =
       (if hasProperty (containers this) (environment this) cname
        then (Inr (getProperty (containers this) (environment this) cname), this)
        else (Inl ContainerNotFound, this))"
  using truthy_lower_name [of cname "containers this" "environment this"]
  by (simp add: getInMemoryContainer_def Let_def reject_def resolve_def)


lemma getInMemoryContainer_found:
  "cname \<noteq> [] \<Longrightarrow> cname = toLowerCase cname \<Longrightarrow> containers this cname = Some c \<Longrightarrow>
     getInMemoryContainer (Str cname) this = (Inr (Own c), this)"
  by (simp add: getInMemoryContainer_valid hasProperty_own getProperty_own)

lemma getInMemoryContainer_Path:
  "getInMemoryContainer (Path p) = getInMemoryContainer (Str (containerName p))"
  by (simp add: getInMemoryContainer_def)

lemma InvalidResourceName_not_ContainerNotFound:
  "resolveIfErrorMessageContains InvalidResourceName ''ContainerNotFound'' v this
     = (Inl InvalidResourceName, this)"
  by (simp add: resolveIfErrorMessageContains_def new_Error_def indexOf_def reject_def)


lemma invalid_container_op:
  assumes "cname = [] \<or> cname \<noteq> toLowerCase cname"
  shows "then_p (getInMemoryContainer (Str cname)) f this = (Inl InvalidResourceName, this)"
  by (simp add: then_p_def getInMemoryContainer_invalid [OF assms])

lemma invalid_container_caught:
  assumes "cname = [] \<or> cname \<noteq> toLowerCase cname"
  shows "catch_p (then_p (getInMemoryContainer (Str cname)) f)
           (\<lambda>error. resolveIfErrorMessageContains error ''ContainerNotFound'' v) this
         = (Inl InvalidResourceName, this)"
  by (simp add: catch_p_def invalid_container_op [OF assms]
      InvalidResourceName_not_ContainerNotFound)

lemma invalid_container_caught_first:
  assumes "cname = [] \<or> cname \<noteq> toLowerCase cname"
  shows "catch_p (getInMemoryContainer (Str cname))
           (\<lambda>error. resolveIfErrorMessageContains error ''ContainerNotFound'' v) this
         = (Inl InvalidResourceName, this)"
  by (simp add: catch_p_def getInMemoryContainer_invalid [OF assms]
      InvalidResourceName_not_ContainerNotFound)

lemma invalid_blob_op:
  assumes "cname = [] \<or> cname \<noteq> toLowerCase cname"
    and "containerName (BlobPath_parse arg) = cname"
  shows "then_p (getInMemoryBlob arg) f this = (Inl InvalidResourceName, this)"
  using assms(2)
  by (simp add: then_p_def getInMemoryBlob_def Let_def getInMemoryContainer_invalid [OF assms(1)])

subsection \<open>Invalid container names\<close>

text \<open>
  C8. When the container name an operation addresses is empty or differs from its lower
  case, the operation rejects with the \<open>InvalidResourceName\<close> error in every state of the
  backend (no lookup decides it) and leaves the state as it was. The operations are
  those on a container name and those on a blob path whose parsed container name is the
  offending one. The message of the error starts with the name of its kind.
\<close>

theorem invalid_container_name_rejected:
  assumes bad: "cname = [] \<or> cname \<noteq> toLowerCase cname"
    and arg: "containerName (BlobPath_parse arg) = cname"
  shows "createContainer cname copts this = (Inl InvalidResourceName, this)
       \<and> containerExists cname this = (Inl InvalidResourceName, this)
       \<and> getContainerAccessPolicy cname this = (Inl InvalidResourceName, this)
       \<and> setContainerAccessPolicy cname policy this = (Inl InvalidResourceName, this)
       \<and> deleteContainer cname this = (Inl InvalidResourceName, this)
       \<and> createBlob arg bopts this = (Inl InvalidResourceName, this)
       \<and> blobExists arg this = (Inl InvalidResourceName, this)
       \<and> deleteBlob arg this = (Inl InvalidResourceName, this)
       \<and> getBlobContentsAsString arg this = (Inl InvalidResourceName, this)
       \<and> setBlobContentsFromString arg blobContents bopts this = (Inl InvalidResourceName, this)
       \<and> setBlobContentsFromFile readFileSync arg filePath bopts this = (Inl InvalidResourceName, this)
       \<and> getBlobContentType arg this = (Inl InvalidResourceName, this)
       \<and> setBlobContentType arg newContentType this = (Inl InvalidResourceName, this)
       \<and> take (length ''InvalidResourceName'') (message InvalidResourceName) = ''InvalidResourceName''"
proof -
  note c = invalid_container_caught [OF bad]
  note o = invalid_container_op [OF bad]
  note b = invalid_blob_op [OF bad arg]
  have 1: "createContainer cname copts this = (Inl InvalidResourceName, this)"
    unfolding createContainer_def
    by (subst then_p_def) (simp add: invalid_container_caught_first [OF bad])
  have 2: "containerExists cname this = (Inl InvalidResourceName, this)"
    by (simp add: containerExists_def c)
  have 3: "getContainerAccessPolicy cname this = (Inl InvalidResourceName, this)"
    by (simp add: getContainerAccessPolicy_def o)
  have 4: "setContainerAccessPolicy cname policy this = (Inl InvalidResourceName, this)"
    by (simp add: setContainerAccessPolicy_def o)
  have 5: "deleteContainer cname this = (Inl InvalidResourceName, this)"
    by (simp add: deleteContainer_def c)
  have 6: "createBlob arg bopts this = (Inl InvalidResourceName, this)"
    using arg by (simp add: createBlob_def Let_def getInMemoryContainer_Path o)
  have 7: "blobExists arg this = (Inl InvalidResourceName, this)"
    using arg by (simp add: blobExists_def Let_def getInMemoryContainer_Path c)
  have 8: "deleteBlob arg this = (Inl InvalidResourceName, this)"
    using arg by (simp add: deleteBlob_def Let_def getInMemoryContainer_Path o)
  have 9: "getBlobContentsAsString arg this = (Inl InvalidResourceName, this)"
    by (simp add: getBlobContentsAsString_def b)
  have 10: "setBlobContentsFromString arg blobContents bopts this = (Inl InvalidResourceName, this)"
    using arg by (simp add: setBlobContentsFromString_def Let_def getInMemoryContainer_Path o)
  have 11: "setBlobContentsFromFile readFileSync arg filePath bopts this = (Inl InvalidResourceName, this)"
    using arg by (simp add: setBlobContentsFromFile_def Let_def getInMemoryContainer_Path o)
  have 12: "getBlobContentType arg this = (Inl InvalidResourceName, this)"
    by (simp add: getBlobContentType_def b)
  have 13: "setBlobContentType arg newContentType this = (Inl InvalidResourceName, this)"
    by (simp add: setBlobContentType_def b)
  have 14: "take (length ''InvalidResourceName'') (message InvalidResourceName) = ''InvalidResourceName''"
    by (simp add: new_Error_def)
  from 1 2 3 4 5 6 7 8 9 10 11 12 13 14 show ?thesis by blast
qed

text \<open>The names \<open>Logs\<close> and the empty name, on the backend just constructed and on one
  that holds the container \<open>logs\<close>.\<close>

theorem invalid_container_name_rejected_witness:
  "(''Logs'' = [] \<or> ''Logs'' \<noteq> toLowerCase ''Logs'')
   \<and> containerName (BlobPath_parse (Str ''Logs/a.txt'')) = ''Logs''
   \<and> createContainer ''Logs'' None fresh = (Inl InvalidResourceName, fresh)
   \<and> deleteBlob (Str ''Logs/a.txt'') fresh = (Inl InvalidResourceName, fresh)
   \<and> getBlobContentType (Str ''Logs/a.txt'') fresh = (Inl InvalidResourceName, fresh)
   \<and> ('''' = [] \<or> '''' \<noteq> toLowerCase '''')
   \<and> containerName (BlobPath_parse (Str ''readme.txt'')) = ''''
   \<and> containerExists '''' (example_storage Map.empty)
       = (Inl InvalidResourceName, example_storage Map.empty)
   \<and> setBlobContentsFromString (Str ''readme.txt'') [0x68, 0x69] None (example_storage Map.empty)
       = (Inl InvalidResourceName, example_storage Map.empty)"
proof -
  have bad: "''Logs'' = [] \<or> ''Logs'' \<noteq> toLowerCase ''Logs''"
    by (simp add: toLowerCase_def toLowerCase_char_def char_of_def)
  have arg: "containerName (BlobPath_parse (Str ''Logs/a.txt'')) = ''Logs''"
    by (simp add: BlobPath_parse_def indexOf_def substring_def Let_def)
  have bad': "'''' = [] \<or> '''' \<noteq> toLowerCase ''''" by simp
  have arg': "containerName (BlobPath_parse (Str ''readme.txt'')) = ''''"
    by (simp add: BlobPath_parse_def indexOf_def substring_def Let_def)
  show ?thesis
    using bad arg bad' arg'
      invalid_container_name_rejected [OF bad arg, of None fresh]
      invalid_container_name_rejected [OF bad' arg', where this = "example_storage Map.empty"
        and blobContents = "[0x68, 0x69]" and bopts = None]
    by blast
qed

subsection \<open>Operations on a valid container name\<close>

lemma found_container_op:
  assumes "n \<noteq> []" and "n = toLowerCase n" and "containers this n = Some c"
  shows "then_p (getInMemoryContainer (Str n)) f this = f (Own c) this"
  by (simp add: then_p_def getInMemoryContainer_found [OF assms])


lemma getInMemoryBlob_found_container:
  assumes "containerName (BlobPath_parse arg) \<noteq> []"
    and "containerName (BlobPath_parse arg) = toLowerCase (containerName (BlobPath_parse arg))"
    and "containers this (containerName (BlobPath_parse arg)) = Some c"
  shows "getInMemoryBlob arg this =
           (if hasProperty (blobs c) (environment this) (blobName (BlobPath_parse arg))
            then (Inr (getProperty (blobs c) (environment this) (blobName (BlobPath_parse arg))), this)
            else (Inl BlobNotFound, this))"
  by (simp add: getInMemoryBlob_def Let_def found_container_op [OF assms] container_blobs_def)















lemma lower_logs: "''logs'' = toLowerCase ''logs''"
  by (simp add: toLowerCase_def toLowerCase_char_def)





subsection \<open>Creating a container twice\<close>




subsection \<open>Deleting a blob\<close>








subsection \<open>The content type of a missing blob\<close>




subsection \<open>Writing and reading a blob\<close>





lemma setBlobContentsFromString_found_container:
  assumes "containerName (BlobPath_parse arg) \<noteq> []"
    and "containerName (BlobPath_parse arg) = toLowerCase (containerName (BlobPath_parse arg))"
    and "containers this (containerName (BlobPath_parse arg)) = Some c"
  shows "setBlobContentsFromString arg blobContents options this =
           (let blob = getProperty (blobs c) (environment this) (blobName (BlobPath_parse arg))
            in if \<not> truthy blob then
                 (Inr (),
                  store_container (containerName (BlobPath_parse arg))
                    (c\<lparr>blobs := (blobs c)
                       (blobName (BlobPath_parse arg) \<mapsto>
                          \<lparr>contents = Buffer_from_string blobContents,
                           contentType = Some (contentTypeOrDefault options)\<rparr>)\<rparr>) this)
               else assign_blob (BlobPath_parse arg) c blob (Buffer_from_string blobContents)
                      (contentTypeOrDefault options) this)"
  by (simp add: setBlobContentsFromString_def Let_def getInMemoryContainer_Path
      found_container_op [OF assms])











subsection \<open>Setting and getting the contents of a blob\<close>




lemma parse_logs_proto:
  "BlobPath_parse (Str ''logs/__proto__'') = \<lparr>containerName = ''logs'', blobName = ''__proto__''\<rparr>"
  by (simp add: BlobPath_parse_def indexOf_def substring_from_def substring_def Let_def)

lemma parse_logs_contentType:
  "BlobPath_parse (Str ''logs/contentType'')
     = \<lparr>containerName = ''logs'', blobName = ''contentType''\<rparr>"
  by (simp add: BlobPath_parse_def indexOf_def substring_from_def substring_def Let_def)

lemma inheritedValue_proto: "inheritedValue env ''__proto__'' = Inherited ObjectPrototype"
  by (simp add: inheritedValue_def functionMembers_def)

lemma inheritedValue_contentType:
  "own_contentType (prototypeProperties env) = Some t \<Longrightarrow>
     inheritedValue env ''contentType'' = StringValue t"
  by (simp add: inheritedValue_def functionMembers_def)

text \<open>
  The condition of C4 on the lookup is needed. A content type written at the blob name
  \<open>__proto__\<close> lands on \<open>Object.prototype\<close>; from then on the lookup of the blob name
  \<open>contentType\<close> finds that string in every container. \<open>setBlobContentsFromString\<close> then
  throws on the assignment to a property of a string and stores nothing, and
  \<open>getBlobContentsAsString\<close> fails as well.
\<close>

theorem set_contents_on_inherited_string_rejects:
  "setBlobContentType (Str ''logs/__proto__'') ''text/plain'' (example_storage Map.empty)
     = (Inr (),
        (example_storage Map.empty)
          \<lparr>environment := pristine
             \<lparr>prototypeProperties := no_properties\<lparr>own_contentType := Some ''text/plain''\<rparr>\<rparr>\<rparr>)
   \<and> setBlobContentsFromString (Str ''logs/contentType'') [0x68, 0x69] None
        ((example_storage Map.empty)
          \<lparr>environment := pristine
             \<lparr>prototypeProperties := no_properties\<lparr>own_contentType := Some ''text/plain''\<rparr>\<rparr>\<rparr>)
     = (Inl (TypeError_create ''contents'' ''text/plain''),
        (example_storage Map.empty)
          \<lparr>environment := pristine
             \<lparr>prototypeProperties := no_properties\<lparr>own_contentType := Some ''text/plain''\<rparr>\<rparr>\<rparr>)
   \<and> getBlobContentsAsString (Str ''logs/contentType'')
        ((example_storage Map.empty)
          \<lparr>environment := pristine
             \<lparr>prototypeProperties := no_properties\<lparr>own_contentType := Some ''text/plain''\<rparr>\<rparr>\<rparr>)
     = (Inl (TypeError_read ''toString''),
        (example_storage Map.empty)
          \<lparr>environment := pristine
             \<lparr>prototypeProperties := no_properties\<lparr>own_contentType := Some ''text/plain''\<rparr>\<rparr>\<rparr>)"
proof -
  let ?S = "example_storage Map.empty"
  let ?env = "pristine\<lparr>prototypeProperties := no_properties\<lparr>own_contentType := Some ''text/plain''\<rparr>\<rparr>"
  let ?P = "?S\<lparr>environment := ?env\<rparr>"
  have env: "environment ?S = pristine" by (simp add: example_storage_def)
  have env': "environment ?P = ?env" by simp
  have bl: "blobs (example_container Map.empty) = Map.empty" by (simp add: example_container_def)
  have cn1: "containerName (BlobPath_parse (Str ''logs/__proto__'')) = ''logs''"
    and bn1: "blobName (BlobPath_parse (Str ''logs/__proto__'')) = ''__proto__''"
    by (simp_all add: parse_logs_proto)
  have ne1: "containerName (BlobPath_parse (Str ''logs/__proto__'')) \<noteq> []" by (simp add: cn1)
  have lo1: "containerName (BlobPath_parse (Str ''logs/__proto__''))
              = toLowerCase (containerName (BlobPath_parse (Str ''logs/__proto__'')))"
    using lower_logs by (simp add: cn1)
  have ex1: "containers ?S (containerName (BlobPath_parse (Str ''logs/__proto__'')))
              = Some (example_container Map.empty)"
    by (simp add: cn1 example_storage_def)
  have blob1: "getInMemoryBlob (Str ''logs/__proto__'') ?S = (Inr (Inherited ObjectPrototype), ?S)"
    unfolding getInMemoryBlob_found_container [OF ne1 lo1 ex1] bn1 env bl
    by (simp add: hasProperty_def isInherited_def getProperty_def inheritedValue_proto)
  have assign: "assign_contentType ObjectPrototype ''text/plain'' pristine = ?env"
    by (simp add: assign_contentType_def update_properties_def pristine_def)
  have 1: "setBlobContentType (Str ''logs/__proto__'') ''text/plain'' ?S = (Inr (), ?P)"
    by (simp add: setBlobContentType_def then_p_def blob1 env assign)
  have cn2: "containerName (BlobPath_parse (Str ''logs/contentType'')) = ''logs''"
    and bn2: "blobName (BlobPath_parse (Str ''logs/contentType'')) = ''contentType''"
    by (simp_all add: parse_logs_contentType)
  have ne2: "containerName (BlobPath_parse (Str ''logs/contentType'')) \<noteq> []" by (simp add: cn2)
  have lo2: "containerName (BlobPath_parse (Str ''logs/contentType''))
              = toLowerCase (containerName (BlobPath_parse (Str ''logs/contentType'')))"
    using lower_logs by (simp add: cn2)
  have ex2: "containers ?P (containerName (BlobPath_parse (Str ''logs/contentType'')))
              = Some (example_container Map.empty)"
    by (simp add: cn2 example_storage_def)
  have ct: "own_contentType (prototypeProperties ?env) = Some ''text/plain''" by simp
  have gp: "getProperty (blobs (example_container Map.empty)) ?env ''contentType''
              = (StringValue ''text/plain'' :: InMemoryBlob JSValue)"
    by (simp add: getProperty_def bl inheritedValue_contentType [OF ct])
  have hp: "hasProperty (blobs (example_container Map.empty)) ?env ''contentType''"
    by (simp add: hasProperty_def isInherited_def)
  have 2: "setBlobContentsFromString (Str ''logs/contentType'') [0x68, 0x69] None ?P
             = (Inl (TypeError_create ''contents'' ''text/plain''), ?P)"
    unfolding setBlobContentsFromString_found_container [OF ne2 lo2 ex2] bn2 env' Let_def gp
    by (simp add: truthy_def assign_blob_def)
  have blob2: "getInMemoryBlob (Str ''logs/contentType'') ?P
                 = (Inr (StringValue ''text/plain''), ?P)"
    unfolding getInMemoryBlob_found_container [OF ne2 lo2 ex2] bn2 env' gp
    using hp by simp
  have none: "blob_contents ?env (StringValue ''text/plain'' :: InMemoryBlob JSValue) = None"
    by (simp add: blob_contents_def no_properties_def)
  have 3: "getBlobContentsAsString (Str ''logs/contentType'') ?P
             = (Inl (TypeError_read ''toString''), ?P)"
    unfolding getBlobContentsAsString_def then_p_def blob2
    by (simp add: none)
  from 1 2 3 show ?thesis by simp
qed

subsection \<open>The content type after a write\<close>




section \<open>Properties of the cloud backend\<close>

text \<open>
  C1. \<open>getURL\<close> computes the URL without its query string into \<open>result\<close> and then returns
  \<open>this.url\<close>: whatever the options and whatever \<open>removeQuery\<close> does, the URL the backend
  was built with comes back, query string included. The instances are a URL with a SAS
  token, asked for with \<open>sasToken\<close> false and with \<open>sasToken\<close> absent.
\<close>

theorem AzureBlobStorage_getURL_keeps_query:
  "AzureBlobStorage_getURL removeQuery this options = url this
   \<and> AzureBlobStorage_getURL removeQuery
        \<lparr>url = ''https://account.blob.core.windows.net/?sv=2018-03-28&sig=secret''\<rparr>
        (Some \<lparr>sasToken = Some False\<rparr>)
       = ''https://account.blob.core.windows.net/?sv=2018-03-28&sig=secret''
   \<and> AzureBlobStorage_getURL removeQuery
        \<lparr>url = ''https://account.blob.core.windows.net/?sv=2018-03-28&sig=secret''\<rparr>
        (Some \<lparr>sasToken = None\<rparr>)
       = ''https://account.blob.core.windows.net/?sv=2018-03-28&sig=secret''"
  by (simp add: AzureBlobStorage_getURL_def Let_def)

end
